theory Spec2Isabelle
  imports Complex_Main "HOL-Library.Sublist"
begin

section \<open>JavaScript numbers as the scraper uses them\<close>

text \<open>
  The scraper (function \<open>scrapeProduct\<close>, present in
  \<open>supabase/functions/update-prices/index.ts\<close> and in the scrape-product function that
  handles a new tracking request) obtains its prices with
  \<open>parseInt(m[1].replace(/,/g, ''))\<close>, where the capture group \<open>m[1]\<close> is
  \<open>[0-9,]+\<close>.  The result is a non-negative integer, or \<open>NaN\<close> when the capture
  holds commas only.  Both \<open>0\<close> and \<open>NaN\<close> are falsy.  Integers are unbounded here:
  the rounding of a literal beyond \<open>2^53\<close> to the nearest double is not modelled.
\<close>

datatype jsnum = NaN | Fin int

fun truthy :: "jsnum \<Rightarrow> bool" where
  "truthy NaN = False"
| "truthy (Fin n) = (n \<noteq> 0)"

definition is_digit :: "char \<Rightarrow> bool" where
  "is_digit c = (48 \<le> (of_char c :: nat) \<and> (of_char c :: nat) \<le> 57)"

definition digit_val :: "char \<Rightarrow> nat" where
  "digit_val c = (of_char c :: nat) - 48"

definition strip_commas :: "string \<Rightarrow> string" where
  \<comment> \<open>\<open>s.replace(/,/g, '')\<close>\<close>
  "strip_commas s = filter (\<lambda>c. c \<noteq> CHR '','') s"

definition parseInt :: "string \<Rightarrow> jsnum" where
  \<comment> \<open>\<open>parseInt\<close> on a string that starts with a digit or is empty: the leading
      run of decimal digits, \<open>NaN\<close> when there is none.\<close>
  "parseInt s =
     (let ds = takeWhile is_digit s
      in if ds = [] then NaN
         else Fin (int (foldl (\<lambda>acc c. 10 * acc + digit_val c) 0 ds)))"

definition in_price_range :: "jsnum \<Rightarrow> bool" where
  \<comment> \<open>\<open>price > 0 && price < 2000000\<close>; a comparison with \<open>NaN\<close> is false.\<close>
  "in_price_range p = (case p of NaN \<Rightarrow> False | Fin n \<Rightarrow> 0 < n \<and> n < 2000000)"

fun fallback_price :: "string option list \<Rightarrow> jsnum \<Rightarrow> jsnum" where
  \<comment> \<open>The loop over the fallback patterns: the first match whose number is in range
      is taken; the variable keeps its value when no pattern gives one.\<close>
  "fallback_price [] cur = cur"
| "fallback_price (None # ms) cur = fallback_price ms cur"
| "fallback_price (Some s # ms) cur =
     (let price = parseInt (strip_commas s)
      in if in_price_range price then price else fallback_price ms cur)"

definition js_or :: "jsnum \<Rightarrow> jsnum \<Rightarrow> jsnum" where
  \<comment> \<open>\<open>a || b\<close> on numbers\<close>
  "js_or a b = (if truthy a then a else b)"

definition or_default :: "jsnum \<Rightarrow> int \<Rightarrow> int" where
  \<comment> \<open>\<open>a || d\<close> where \<open>d\<close> is a finite number: the result is finite.\<close>
  "or_default a d = (case a of NaN \<Rightarrow> d | Fin n \<Rightarrow> if n = 0 then d else n)"

definition js_plus :: "jsnum \<Rightarrow> int \<Rightarrow> jsnum" where
  "js_plus a k = (case a of NaN \<Rightarrow> NaN | Fin n \<Rightarrow> Fin (n + k))"

definition str_or :: "string \<Rightarrow> string \<Rightarrow> string" where
  \<comment> \<open>\<open>s || d\<close> on strings: the empty string is falsy.\<close>
  "str_or s d = (if s = [] then d else s)"

section \<open>The Extractor: \<open>scrapeProduct\<close>\<close>

text \<open>
  The regular-expression engine and \<open>fetch\<close> are the platform's.  A fetched page is
  represented by what the patterns of \<open>scrapeProduct\<close> find in its markup: the
  out-of-stock test, the capture group of the list-price and sale-price patterns and of
  each of their fallback patterns (in the order of the source), and the capture of the
  first image pattern that matches.  The descriptive fields (title, discount text,
  storage, RAM, colour) are computed by cascades that never assign a price and never
  throw; they are carried as the texts those cascades produce.  \<open>resolveHref\<close> stands
  for \<open>new URL(image_url, url).href\<close>, which throws a \<open>TypeError\<close> (\<open>None\<close>) on a
  reference it cannot parse.

  The condition is different, because its fallback cascade can throw.  \<open>bodyCondition\<close>
  is the condition after the descriptive-line block (\<open>'Good'\<close> unless the second part of
  that line names one).  While it is \<open>'Good'\<close> the cascade tries five patterns with
  \<open>html.match(pattern)\<close> and, at the first that matches, evaluates
  \<open>match[1].trim()\<close>.  Four of the patterns have no \<open>g\<close> flag, so \<open>match[1]\<close> is their
  capture group.  The third, \<open>/(Fair|Good|Excellent|Superb)/gi\<close>, has it: \<open>match\<close> is then
  the list of all occurrences, \<open>match[1]\<close> is the second occurrence, and it is
  \<open>undefined\<close> when the word occurs once, so that \<open>.trim()\<close> throws a \<open>TypeError\<close>.
  \<open>conditionMatches\<close> holds, for each pattern in order, what \<open>match[1]\<close> is there; a
  \<open>Group\<close> carries the condition as the lines after the \<open>trim\<close> normalise it.
\<close>

datatype cond_match = NoMatch | NoGroup | Group string

record page =
  outOfStock :: bool
  mrpMatch :: "string option"
  fallbackMrpMatches :: "string option list"
  salePriceMatch :: "string option"
  fallbackSalePriceMatches :: "string option list"
  imageMatches :: "string option list"
  resolveHref :: "string \<Rightarrow> string option"
  titleText :: string
  discountText :: "jsnum \<Rightarrow> jsnum \<Rightarrow> string"
  bodyCondition :: string
  conditionMatches :: "cond_match list"
  finalStorage :: string
  ramText :: string
  colorText :: string

datatype fetch_result = FetchFailed string | Fetched page

datatype scrape_error = FetchError string | UndefinedTrim | InvalidUrl | NoPriceData

fun message :: "scrape_error \<Rightarrow> string" where
  "message (FetchError m) = m"
| "message UndefinedTrim =
     ''Cannot read properties of undefined (reading '' @ [CHR 0x27] @ ''trim'' @ [CHR 0x27] @ '')''"
| "message InvalidUrl = ''Invalid URL''"
| "message NoPriceData = ''Could not extract price information from the page''"

record ScrapedData =
  title :: string
  mrp :: int
  sale_price :: int
  discount :: string
  condition :: string
  storage :: string
  ram :: "string option"
  color :: "string option"
  image_url :: "string option"
  is_out_of_stock :: bool

definition extract_mrp :: "page \<Rightarrow> jsnum" where
  \<comment> \<open>\<open>update-prices/index.ts\<close>, lines 523-550: the specific pattern, whose number is
      taken as it is, then the fallback patterns while \<open>!mrp\<close>.\<close>
  "extract_mrp pg =
     (let m = (case mrpMatch pg of
                 Some s \<Rightarrow> parseInt (strip_commas s)
               | None \<Rightarrow> Fin 0)
      in if \<not> truthy m then fallback_price (fallbackMrpMatches pg) m else m)"

definition extract_sale_price :: "page \<Rightarrow> jsnum" where
  \<comment> \<open>Lines 552-581: skipped altogether when the page is out of stock.\<close>
  "extract_sale_price pg =
     (if \<not> outOfStock pg then
        (let sale = (case salePriceMatch pg of
                       Some s \<Rightarrow> parseInt (strip_commas s)
                     | None \<Rightarrow> Fin 0)
         in if \<not> truthy sale then fallback_price (fallbackSalePriceMatches pg) sale
            else sale)
      else Fin 0)"

fun condition_cascade :: "cond_match list \<Rightarrow> scrape_error + string" where
  \<comment> \<open>Lines 673-684: the loop over \<open>conditionPatterns\<close>, which stops at the first
      pattern that matches; the condition stays \<open>'Good'\<close> when none does.\<close>
  "condition_cascade [] = Inr ''Good''"
| "condition_cascade (NoMatch # ms) = condition_cascade ms"
| "condition_cascade (NoGroup # ms) = Inl UndefinedTrim"
| "condition_cascade (Group c # ms) = Inr c"

definition extract_condition :: "page \<Rightarrow> scrape_error + string" where
  \<comment> \<open>Lines 663-685: \<open>if (condition === 'Good') { ... }\<close>\<close>
  "extract_condition pg =
     (if bodyCondition pg = ''Good'' then condition_cascade (conditionMatches pg)
      else Inr (bodyCondition pg))"

fun first_match :: "string option list \<Rightarrow> string option" where
  "first_match [] = None"
| "first_match (None # ms) = first_match ms"
| "first_match (Some s # ms) = Some s"

definition extract_image_url :: "page \<Rightarrow> scrape_error + string" where
  \<comment> \<open>Lines 720-739: a source that does not start with \<open>http\<close> is resolved against
      the page URL.\<close>
  "extract_image_url pg =
     (case first_match (imageMatches pg) of
        None \<Rightarrow> Inr []
      | Some src \<Rightarrow>
          if prefix ''http'' src then Inr src
          else (case resolveHref pg src of
                  None \<Rightarrow> Inl InvalidUrl
                | Some href \<Rightarrow> Inr href))"

definition out_of_stock_backfill :: "jsnum \<times> jsnum \<Rightarrow> jsnum \<times> jsnum" where
  \<comment> \<open>Lines 755-765: the body of \<open>if (isOutOfStock) { ... }\<close> on the pair
      \<open>(mrp, sale_price)\<close>.\<close>
  "out_of_stock_backfill ps =
     (case ps of (m, sale) \<Rightarrow>
        if \<not> truthy m \<and> \<not> truthy sale then (Fin 50000, Fin 45000)
        else if \<not> truthy sale then (m, js_or m (Fin 45000))
        else if \<not> truthy m then (js_plus sale 5000, sale)
        else (m, sale))"

definition final_prices :: "page \<Rightarrow> jsnum \<times> jsnum" where
  \<comment> \<open>\<open>(mrp, sale_price)\<close> as they stand at the check \<open>if (!mrp && !sale_price)\<close>.\<close>
  "final_prices pg =
     (let ps = (extract_mrp pg, extract_sale_price pg)
      in if outOfStock pg then out_of_stock_backfill ps else ps)"

definition scrape_page :: "page \<Rightarrow> scrape_error + ScrapedData" where
  \<comment> \<open>The \<open>try\<close> body of \<open>scrapeProduct\<close> once the markup is there, with its three
      throws in the order of the source: the condition cascade (line 676), then the image
      reference (line 735), and only then the backfill and the check of the prices (lines
      755-770).  The two copies of the function have the same \<open>try\<close> body and differ in
      their \<open>catch\<close> only.\<close>
  "scrape_page pg =
     (case extract_condition pg of
        Inl e \<Rightarrow> Inl e
      | Inr cond \<Rightarrow>
          (case extract_image_url pg of
             Inl e \<Rightarrow> Inl e
           | Inr img \<Rightarrow>
               (case final_prices pg of (m, sale) \<Rightarrow>
                  if \<not> truthy m \<and> \<not> truthy sale then Inl NoPriceData
                  else Inr \<lparr> title = str_or (titleText pg) ''Cashify Product'',
                             mrp = or_default m (or_default sale 50000),
                             sale_price = or_default sale (or_default m 45000),
                             discount =
                               discountText pg (extract_mrp pg) (extract_sale_price pg),
                             condition = cond,
                             storage = str_or (finalStorage pg) ''128GB'',
                             ram = Some (ramText pg),
                             color = Some (colorText pg),
                             image_url = (if img = [] then None else Some img),
                             is_out_of_stock = outOfStock pg \<rparr>)))"

definition scrape_try :: "fetch_result \<Rightarrow> scrape_error + ScrapedData" where
  \<comment> \<open>The whole \<open>try\<close> block: a failed fetch (a rejected \<open>fetch\<close>, or a response that is
      not \<open>ok\<close>) throws before any markup is read.\<close>
  "scrape_try r =
     (case r of
        FetchFailed m \<Rightarrow> Inl (FetchError m)
      | Fetched pg \<Rightarrow> scrape_page pg)"

definition scrapeProduct :: "fetch_result \<Rightarrow> scrape_error + ScrapedData" where
  \<comment> \<open>\<open>scrapeProduct\<close> of \<open>update-prices/index.ts\<close> (lines 489-789): its \<open>catch\<close> logs
      and rethrows.\<close>
  "scrapeProduct r = scrape_try r"

definition to_upper :: "char \<Rightarrow> char" where
  \<comment> \<open>\<open>toUpperCase\<close> on one ASCII character: a lower-case letter loses the bit of value
      32; a character beyond ASCII is left as it is.\<close>
  "to_upper c =
     (if 97 \<le> (of_char c :: nat) \<and> (of_char c :: nat) \<le> 122
      then (case c of Char b0 b1 b2 b3 b4 b5 b6 b7 \<Rightarrow> Char b0 b1 b2 b3 b4 False b6 b7)
      else c)"

definition url_title :: "string \<Rightarrow> string" where
  \<comment> \<open>\<open>url.split('/').pop()?.replace(/-/g, ' ') || 'Product'\<close>\<close>
  "url_title url =
     str_or (map (\<lambda>c. if c = CHR ''-'' then CHR '' '' else c)
               (rev (takeWhile (\<lambda>c. c \<noteq> CHR ''/'') (rev url))))
            ''Product''"

definition fallback_data :: "string \<Rightarrow> ScrapedData" where
  \<comment> \<open>The value returned by the \<open>catch\<close> of the scrape-product function's scraper.\<close>
  "fallback_data url =
     (let t = url_title url
      in \<lparr> title = ''Cashify '' @ (case t of [] \<Rightarrow> [] | c # cs \<Rightarrow> to_upper c # cs),
           mrp = 50000,
           sale_price = 45000,
           discount = ''10%'',
           condition = ''Good'',
           storage = ''128GB'',
           ram = None,
           color = None,
           image_url = None,
           is_out_of_stock = False \<rparr>)"

definition scrapeProduct_intake :: "string \<Rightarrow> fetch_result \<Rightarrow> ScrapedData" where
  \<comment> \<open>The scraper of the scrape-product function: whatever is thrown in the \<open>try\<close>
      body is caught and replaced by \<open>fallback_data\<close>; the function never throws.\<close>
  "scrapeProduct_intake url r =
     (case scrape_try r of
        Inl e \<Rightarrow> fallback_data url
      | Inr d \<Rightarrow> d)"

section \<open>Stored rows and collaborators\<close>

text \<open>
  The tables \<open>products\<close> and \<open>price_alerts\<close> of the migrations, as lists of rows.
  Columns of a product row carry the prefix \<open>p_\<close> and those of an alert row the prefix
  \<open>a_\<close> where the two tables (or \<open>ScrapedData\<close>) share a column name.  Timestamps are
  milliseconds; the several \<open>new Date()\<close> of one loop iteration are one instant.
  \<open>is_out_of_stock\<close> is a nullable column (\<open>None\<close> is \<open>null\<close>).
\<close>

type_synonym uuid = string
type_synonym timestamp = int

record PriceEntry =
  price :: int
  checked_at :: timestamp

record product =
  p_id :: uuid
  p_user_id :: uuid
  p_url :: string
  p_title :: string
  p_mrp :: int
  p_sale_price :: int
  p_discount :: string
  p_condition :: string
  p_storage :: string
  p_ram :: string
  p_color :: string
  p_image_url :: "string option"
  p_is_out_of_stock :: "bool option"
  price_history :: "PriceEntry list"
  last_checked :: timestamp
  p_created_at :: timestamp
  p_updated_at :: timestamp

record PriceAlert =
  a_id :: uuid
  a_product_id :: uuid
  a_user_id :: uuid
  target_price :: rat
  is_active :: bool
  a_created_at :: timestamp
  a_updated_at :: timestamp

record db =
  products :: "product list"
  price_alerts :: "PriceAlert list"

text \<open>
  What the sweep hands to the e-mail sender: one value per call of
  \<open>sendPriceTriggeredEmail\<close> (recipient, product, alert, new price) or of
  \<open>sendStockAlertEmail\<close> (recipient, product).
\<close>

datatype notification =
    PriceTargetReached string uuid uuid int
  | BackInStock string uuid

datatype user_lookup = LookupThrows | NoEmail | Email string

text \<open>
  The collaborators of one loop iteration of the sweep: the outcome of the page fetch, the
  clock, the error (if any) that the \<open>products\<close> update returns, whether the alert query
  returns an error, \<open>auth.admin.getUserById\<close>, whether \<open>sendPriceTriggeredEmail\<close>
  throws for an alert, and whether the update that deactivates an alert is applied (its
  result is not inspected).  \<open>sendStockAlert\<close> catches whatever its send throws.
\<close>

record item_env =
  fetch :: fetch_result
  now :: timestamp
  update_error :: "string option"
  alerts_query_error :: bool
  getUserById :: "uuid \<Rightarrow> user_lookup"
  send_throws :: "uuid \<Rightarrow> bool"
  alert_update_ok :: "uuid \<Rightarrow> bool"

section \<open>The Notifier: \<open>checkPriceAlerts\<close> and \<open>sendStockAlert\<close>\<close>

definition triggered :: "uuid \<Rightarrow> int \<Rightarrow> PriceAlert \<Rightarrow> bool" where
  \<comment> \<open>\<open>.eq('product_id', product.id).eq('is_active', true).gte('target_price', newPrice)\<close>\<close>
  "triggered pid newPrice a =
     (a_product_id a = pid \<and> is_active a \<and> of_int newPrice \<le> target_price a)"

definition deactivate :: "timestamp \<Rightarrow> uuid \<Rightarrow> PriceAlert list \<Rightarrow> PriceAlert list" where
  \<comment> \<open>\<open>.update({ is_active: false, updated_at: ... }).eq('id', alert.id)\<close>\<close>
  "deactivate t aid tbl =
     map (\<lambda>r. if a_id r = aid then r\<lparr>is_active := False, a_updated_at := t\<rparr> else r) tbl"

fun notify_alerts ::
  "item_env \<Rightarrow> uuid \<Rightarrow> int \<Rightarrow> PriceAlert list \<Rightarrow>
   PriceAlert list \<times> notification list \<Rightarrow> PriceAlert list \<times> notification list" where
  \<comment> \<open>The loop \<open>for (const alert of alerts)\<close>; its \<open>try\<close> skips the deactivation when
      the lookup or the send throws.\<close>
  "notify_alerts env pid newPrice [] st = st"
| "notify_alerts env pid newPrice (a # rest) (tbl, out) =
     notify_alerts env pid newPrice rest
       (case getUserById env (a_user_id a) of
          LookupThrows \<Rightarrow> (tbl, out)
        | NoEmail \<Rightarrow>
            (if alert_update_ok env (a_id a) then deactivate (now env) (a_id a) tbl else tbl,
             out)
        | Email e \<Rightarrow>
            (if send_throws env (a_id a) then tbl
             else if alert_update_ok env (a_id a) then deactivate (now env) (a_id a) tbl
             else tbl,
             out @ [PriceTargetReached e pid (a_id a) newPrice]))"

definition checkPriceAlerts ::
  "item_env \<Rightarrow> PriceAlert list \<Rightarrow> uuid \<Rightarrow> int \<Rightarrow> PriceAlert list \<times> notification list" where
  \<comment> \<open>Lines 302-348: the table of alerts before, the table after and the requests made.
      Nothing escapes its outer \<open>try\<close>.\<close>
  "checkPriceAlerts env tbl pid newPrice =
     (if alerts_query_error env then (tbl, [])
      else notify_alerts env pid newPrice (filter (triggered pid newPrice) tbl) (tbl, []))"

definition sendStockAlert :: "item_env \<Rightarrow> product \<Rightarrow> notification list" where
  \<comment> \<open>Lines 170-185\<close>
  "sendStockAlert env p =
     (case getUserById env (p_user_id p) of
        Email e \<Rightarrow> [BackInStock e (p_id p)]
      | _ \<Rightarrow> [])"

section \<open>The Reconciler: one iteration of the sweep\<close>

definition lastPrice :: "product \<Rightarrow> int" where
  \<comment> \<open>Lines 67-70; a \<open>null\<close> history reads as the empty one.\<close>
  "lastPrice p = (if price_history p = [] then 0 else price (last (price_history p)))"

definition priceChanged :: "product \<Rightarrow> ScrapedData \<Rightarrow> bool" where
  \<comment> \<open>The condition of line 76, under which \<open>priceChanged = true\<close>\<close>
  "priceChanged p d = (\<not> is_out_of_stock d \<and> lastPrice p \<noteq> sale_price d)"

definition newPriceHistory :: "product \<Rightarrow> ScrapedData \<Rightarrow> timestamp \<Rightarrow> PriceEntry list" where
  "newPriceHistory p d t =
     (if priceChanged p d
      then price_history p @ [\<lparr> price = sale_price d, checked_at = t \<rparr>]
      else price_history p)"

definition stockStatusChanged :: "product \<Rightarrow> ScrapedData \<Rightarrow> bool" where
  \<comment> \<open>\<open>product.is_out_of_stock !== scrapedData.is_out_of_stock\<close>\<close>
  "stockStatusChanged p d = (p_is_out_of_stock p \<noteq> Some (is_out_of_stock d))"

definition opt_str :: "string option \<Rightarrow> string" where
  \<comment> \<open>\<open>x || ''\<close>\<close>
  "opt_str x = (case x of None \<Rightarrow> [] | Some s \<Rightarrow> s)"

definition store_scrape ::
  "ScrapedData \<Rightarrow> PriceEntry list \<Rightarrow> timestamp \<Rightarrow> product \<Rightarrow> product" where
  \<comment> \<open>The object given to \<open>.update({...})\<close>, applied to a row.\<close>
  "store_scrape d hist t r =
     r\<lparr> p_title := title d,
        p_mrp := mrp d,
        p_sale_price := sale_price d,
        p_discount := discount d,
        p_condition := condition d,
        p_storage := storage d,
        p_ram := opt_str (ram d),
        p_color := opt_str (color d),
        p_image_url := image_url d,
        p_is_out_of_stock := Some (is_out_of_stock d),
        price_history := hist,
        last_checked := t,
        p_updated_at := t \<rparr>"

definition update_row :: "uuid \<Rightarrow> (product \<Rightarrow> product) \<Rightarrow> product list \<Rightarrow> product list" where
  \<comment> \<open>\<open>.update(...).eq('id', product.id)\<close>\<close>
  "update_row pid f tbl = map (\<lambda>r. if p_id r = pid then f r else r) tbl"

record sweep_state =
  store :: db
  updatedCount :: nat
  errors :: "string list"
  outbox :: "notification list"

definition update_item :: "item_env \<Rightarrow> product \<Rightarrow> sweep_state \<Rightarrow> sweep_state" where
  \<comment> \<open>Lines 61-140: the body of \<open>for (const product of products)\<close>, with its
      \<open>try\<close>/\<open>catch\<close>.  \<open>p\<close> is the row as the query at the start of the sweep read it.\<close>
  "update_item env p st =
     (case scrapeProduct (fetch env) of
        Inl e \<Rightarrow>
          st\<lparr> errors := errors st @
                 [''Failed to scrape product '' @ p_id p @ '': '' @ message e] \<rparr>
      | Inr d \<Rightarrow>
          (case update_error env of
             Some msg \<Rightarrow>
               st\<lparr> errors := errors st @
                      [''Failed to update product '' @ p_id p @ '': '' @ msg] \<rparr>
           | None \<Rightarrow>
               (let tbl = update_row (p_id p)
                            (store_scrape d (newPriceHistory p d (now env)) (now env))
                            (products (store st));
                    (alerts, sent) =
                      (if \<not> is_out_of_stock d \<and> priceChanged p d \<and> lastPrice p > sale_price d
                       then checkPriceAlerts env (price_alerts (store st)) (p_id p) (sale_price d)
                       else (price_alerts (store st), []));
                    stock =
                      (if stockStatusChanged p d \<and> \<not> is_out_of_stock d
                          \<and> p_is_out_of_stock p = Some True
                       then sendStockAlert env p else [])
                in st\<lparr> store := \<lparr> products = tbl, price_alerts = alerts \<rparr>,
                       updatedCount := updatedCount st + 1,
                       outbox := outbox st @ sent @ stock \<rparr>)))"

fun sweep :: "(uuid \<Rightarrow> item_env) \<Rightarrow> product list \<Rightarrow> sweep_state \<Rightarrow> sweep_state" where
  "sweep envs [] st = st"
| "sweep envs (p # ps) st = sweep envs ps (update_item (envs (p_id p)) p st)"

datatype sweep_response =
    NoProducts
  | Completed nat nat "string list option"
  | InternalError

definition stale :: "timestamp \<Rightarrow> product \<Rightarrow> bool" where
  \<comment> \<open>\<open>.lt('last_checked', oneHourAgo)\<close>\<close>
  "stale t p = (last_checked p < t - 60 * 60 * 1000)"

definition update_prices ::
  "bool \<Rightarrow> timestamp \<Rightarrow> (uuid \<Rightarrow> item_env) \<Rightarrow> db \<Rightarrow> sweep_response \<times> db \<times> notification list" where
  \<comment> \<open>The handler of \<open>update-prices\<close> (lines 17-168): the response, the store afterwards
      and the notification requests.  The first argument says whether the query for the
      stale products returns an error.\<close>
  "update_prices fetchError t envs d =
     (if fetchError then (InternalError, d, [])
      else
        (let ps = filter (stale t) (products d)
         in if ps = [] then (NoProducts, d, [])
            else
              (let st = sweep envs ps
                          \<lparr> store = d, updatedCount = 0, errors = [], outbox = [] \<rparr>
               in (Completed (updatedCount st) (length ps)
                     (if errors st = [] then None else Some (errors st)),
                   store st, outbox st))))"

section \<open>Intake: the handler of the scrape-product function\<close>

fun str_includes :: "string \<Rightarrow> string \<Rightarrow> bool" where
  \<comment> \<open>\<open>s.includes(sub)\<close>\<close>
  "str_includes [] sub = (sub = [])"
| "str_includes (c # cs) sub = (prefix sub (c # cs) \<or> str_includes cs sub)"

fun remove_first :: "string \<Rightarrow> string \<Rightarrow> string" where
  \<comment> \<open>\<open>s.replace(sub, '')\<close> for a non-empty \<open>sub\<close>: the first occurrence goes.\<close>
  "remove_first sub [] = []"
| "remove_first sub (c # cs) =
     (if prefix sub (c # cs) then drop (length sub) (c # cs) else c # remove_first sub cs)"

datatype req_body = Malformed | UrlField string

record track_request =
  body :: req_body
  authorization :: "string option"

text \<open>
  The collaborators of one tracking request: \<open>auth.getUser\<close> on the token, the outcome of
  fetching a URL, the clock, the id the database gives the new row, and whether the
  insert returns an error.
\<close>

record track_env =
  getUser :: "string \<Rightarrow> uuid option"
  fetch_url :: "string \<Rightarrow> fetch_result"
  clock :: timestamp
  new_id :: uuid
  insert_error :: bool

datatype track_response =
    ErrorResponse nat string
  | TrackingStarted product

record track_result =
  response :: track_response
  store_after :: db
  fetches :: "string list"

definition single :: "'a list \<Rightarrow> 'a option" where
  \<comment> \<open>\<open>.single()\<close>: the row when exactly one row matches, no data otherwise.\<close>
  "single rows = (case rows of [r] \<Rightarrow> Some r | _ \<Rightarrow> None)"

definition new_product :: "track_env \<Rightarrow> uuid \<Rightarrow> string \<Rightarrow> ScrapedData \<Rightarrow> product" where
  \<comment> \<open>The row of \<open>.insert({...})\<close>\<close>
  "new_product env uid url d =
     \<lparr> p_id = new_id env,
       p_user_id = uid,
       p_url = url,
       p_title = title d,
       p_mrp = mrp d,
       p_sale_price = sale_price d,
       p_discount = discount d,
       p_condition = condition d,
       p_storage = storage d,
       p_ram = opt_str (ram d),
       p_color = opt_str (color d),
       p_image_url = image_url d,
       p_is_out_of_stock = Some (is_out_of_stock d),
       price_history = [\<lparr> price = sale_price d, checked_at = clock env \<rparr>],
       last_checked = clock env,
       p_created_at = clock env,
       p_updated_at = clock env \<rparr>"

definition track_product :: "track_env \<Rightarrow> track_request \<Rightarrow> db \<Rightarrow> track_result" where
  \<comment> \<open>The handler: its checks in the order of the source, then the scrape and the
      insert.  An absent and an empty \<open>Authorization\<close> header both fail
      \<open>if (!authHeader)\<close>.  \<open>fetches\<close> lists the URLs it has fetched.\<close>
  "track_product env req d =
     (case body req of
        Malformed \<Rightarrow>
          \<lparr> response = ErrorResponse 500 ''Internal server error'',
            store_after = d, fetches = [] \<rparr>
      | UrlField url \<Rightarrow>
          if url = [] then
            \<lparr> response = ErrorResponse 400 ''URL is required'',
              store_after = d, fetches = [] \<rparr>
          else if \<not> str_includes url ''cashify.in'' then
            \<lparr> response = ErrorResponse 400 ''Only Cashify URLs are supported'',
              store_after = d, fetches = [] \<rparr>
          else
            (case authorization req of
               None \<Rightarrow>
                 \<lparr> response = ErrorResponse 401 ''Authorization header required'',
                   store_after = d, fetches = [] \<rparr>
             | Some hdr \<Rightarrow>
                 if hdr = [] then
                   \<lparr> response = ErrorResponse 401 ''Authorization header required'',
                     store_after = d, fetches = [] \<rparr>
                 else
                 (case getUser env (remove_first ''Bearer '' hdr) of
                    None \<Rightarrow>
                      \<lparr> response = ErrorResponse 401 ''Invalid authorization token'',
                        store_after = d, fetches = [] \<rparr>
                  | Some uid \<Rightarrow>
                      (case single (filter (\<lambda>r. p_user_id r = uid \<and> p_url r = url)
                                      (products d)) of
                         Some existing \<Rightarrow>
                           \<lparr> response = ErrorResponse 400 ''Product is already being tracked'',
                             store_after = d, fetches = [] \<rparr>
                       | None \<Rightarrow>
                           (let sd = scrapeProduct_intake url (fetch_url env url);
                                row = new_product env uid url sd
                            in if insert_error env then
                                 \<lparr> response = ErrorResponse 500 ''Failed to save product data'',
                                   store_after = d, fetches = [url] \<rparr>
                               else
                                 \<lparr> response = TrackingStarted row,
                                   store_after = d\<lparr> products := products d @ [row] \<rparr>,
                                   fetches = [url] \<rparr>)))))"

section \<open>The client: \<open>ProductForm\<close> and \<open>PriceAlertDialog\<close>\<close>

definition validateCashifyUrl :: "string option \<Rightarrow> string \<Rightarrow> bool" where
  \<comment> \<open>The first argument is \<open>new URL(url).hostname\<close>, \<open>None\<close> when \<open>new URL\<close> throws.\<close>
  "validateCashifyUrl hostname url =
     (case hostname of
        None \<Rightarrow> False
      | Some h \<Rightarrow> h = ''www.cashify.in'' \<and> str_includes url ''buy-refurbished'')"

text \<open>
  The two handlers of the alert dialog, as their effect on the table.  The row-level
  security policy of \<open>price_alerts\<close> lets a statement see the rows of its user only;
  \<open>ok\<close> says whether the statement succeeds.
\<close>

definition handleToggleAlert ::
  "bool \<Rightarrow> timestamp \<Rightarrow> uuid \<Rightarrow> uuid \<Rightarrow> bool \<Rightarrow> PriceAlert list \<Rightarrow> PriceAlert list" where
  \<comment> \<open>\<open>.update({ is_active: !isActive, ... }).eq('id', alertId)\<close>; \<open>isActive\<close> is the state
      the dialog shows.\<close>
  "handleToggleAlert ok t uid alertId isActive tbl =
     (if ok then
        map (\<lambda>r. if a_id r = alertId \<and> a_user_id r = uid
                 then r\<lparr>is_active := \<not> isActive, a_updated_at := t\<rparr> else r) tbl
      else tbl)"

definition handleDeleteAlert :: "bool \<Rightarrow> uuid \<Rightarrow> uuid \<Rightarrow> PriceAlert list \<Rightarrow> PriceAlert list" where
  \<comment> \<open>\<open>.delete().eq('id', alertId)\<close>\<close>
  "handleDeleteAlert ok uid alertId tbl =
     (if ok then filter (\<lambda>r. \<not> (a_id r = alertId \<and> a_user_id r = uid)) tbl else tbl)"

section \<open>Example inputs\<close>

definition blank_page :: page where
  \<comment> \<open>An in-stock page on which no price pattern, no condition pattern and no image
      pattern matches.\<close>
  "blank_page =
     \<lparr> outOfStock = False, mrpMatch = None, fallbackMrpMatches = [None, None, None, None],
       salePriceMatch = None, fallbackSalePriceMatches = [None, None, None, None],
       imageMatches = [None, None, None, None, None],
       resolveHref = (\<lambda>s. Some (''https://www.cashify.in'' @ s)),
       titleText = ''Apple iPhone 12'',
       discountText = (\<lambda>a b. ''0%''), bodyCondition = ''Good'',
       conditionMatches = [NoMatch, NoMatch, NoMatch, NoMatch, NoMatch], finalStorage = [],
       ramText = [], colorText = [] \<rparr>"

definition priced_page :: page where
  "priced_page = blank_page \<lparr> mrpMatch := Some ''49,999'', salePriceMatch := Some ''45,499'' \<rparr>"

definition sold_out_page :: page where
  "sold_out_page = blank_page \<lparr> outOfStock := True \<rparr>"

definition sold_out_listed_page :: page where
  "sold_out_listed_page = blank_page \<lparr> outOfStock := True, mrpMatch := Some ''30,000'' \<rparr>"



definition one_word_page :: page where
  \<comment> \<open>In stock, no price in the markup, one occurrence of a condition word.\<close>
  "one_word_page =
     blank_page \<lparr> conditionMatches := [NoMatch, NoMatch, NoGroup, NoMatch, NoMatch] \<rparr>"

definition track_url :: string where
  "track_url = ''https://www.cashify.in/buy-refurbished-mobile-phones/apple-iphone-12''"

definition foreign_url :: string where
  \<comment> \<open>A URL of another host whose path holds the text \<open>cashify.in\<close>.\<close>
  "foreign_url = ''https://evil.example/cashify.in''"

definition track_env0 :: track_env where
  \<comment> \<open>One signed-in user; every fetch returns the page without prices.\<close>
  "track_env0 =
     \<lparr> getUser = (\<lambda>tok. if tok = ''token-1'' then Some ''user-1'' else None),
       fetch_url = (\<lambda>u. Fetched blank_page),
       clock = 1000, new_id = ''prod-1'', insert_error = False \<rparr>"

definition track_req :: "string \<Rightarrow> track_request" where
  "track_req url = \<lparr> body = UrlField url, authorization = Some ''Bearer token-1'' \<rparr>"

definition empty_db :: db where
  "empty_db = \<lparr> products = [], price_alerts = [] \<rparr>"

definition alert_30000 :: PriceAlert where
  "alert_30000 =
     \<lparr> a_id = ''alert-1'', a_product_id = ''prod-1'', a_user_id = ''user-1'',
       target_price = 30000, is_active = True, a_created_at = 100, a_updated_at = 100 \<rparr>"

definition alert_25000 :: PriceAlert where
  "alert_25000 =
     \<lparr> a_id = ''alert-2'', a_product_id = ''prod-1'', a_user_id = ''user-1'',
       target_price = 25000, is_active = True, a_created_at = 200, a_updated_at = 200 \<rparr>"

definition good_env :: item_env where
  \<comment> \<open>Every collaborator answers; the page shows 49,999 struck through and 45,499.\<close>
  "good_env =
     \<lparr> fetch = Fetched priced_page, now = 9000000, update_error = None,
       alerts_query_error = False, getUserById = (\<lambda>u. Email ''user@example.org''),
       send_throws = (\<lambda>a. False), alert_update_ok = (\<lambda>a. True) \<rparr>"

definition no_email_env :: item_env where
  "no_email_env = good_env \<lparr> getUserById := (\<lambda>u. NoEmail) \<rparr>"

definition send_fails_env :: item_env where
  "send_fails_env = good_env \<lparr> send_throws := (\<lambda>a. True) \<rparr>"

definition triggered_alert :: PriceAlert where
  \<comment> \<open>\<open>alert_30000\<close> after the sweep has triggered it.\<close>
  "triggered_alert = alert_30000 \<lparr> is_active := False, a_updated_at := 9000000 \<rparr>"

definition prod1 :: product where
  "prod1 =
     \<lparr> p_id = ''prod-1'', p_user_id = ''user-1'', p_url = track_url,
       p_title = ''Apple iPhone 12'', p_mrp = 49999, p_sale_price = 47000,
       p_discount = ''6%'', p_condition = ''Good'', p_storage = ''128GB'', p_ram = [],
       p_color = [], p_image_url = None, p_is_out_of_stock = Some False,
       price_history = [\<lparr> price = 47000, checked_at = 1000 \<rparr>],
       last_checked = 1000, p_created_at = 1000, p_updated_at = 1000 \<rparr>"

definition prod2 :: product where
  "prod2 = prod1 \<lparr> p_id := ''prod-2'', p_user_id := ''user-2'' \<rparr>"

definition prod3 :: product where
  "prod3 = prod1 \<lparr> p_id := ''prod-3'', p_user_id := ''user-3'' \<rparr>"

definition failing_env :: item_env where
  "failing_env = good_env \<lparr> fetch := FetchFailed ''HTTP error! status: 503'' \<rparr>"

definition sweep_envs :: "uuid \<Rightarrow> item_env" where
  "sweep_envs pid = (if pid = ''prod-2'' then failing_env else good_env)"

definition db3 :: db where
  "db3 = \<lparr> products = [prod1, prod2, prod3], price_alerts = [alert_30000, alert_25000] \<rparr>"

definition priced_data :: ScrapedData where
  \<comment> \<open>What \<open>scrapeProduct\<close> returns for \<open>priced_page\<close>.\<close>
  "priced_data =
     \<lparr> title = ''Apple iPhone 12'', mrp = 49999, sale_price = 45499, discount = ''0%'',
       condition = ''Good'', storage = ''128GB'', ram = Some [], color = Some [],
       image_url = None, is_out_of_stock = False \<rparr>"

definition sweep_start :: "db \<Rightarrow> sweep_state" where
  "sweep_start d = \<lparr> store = d, updatedCount = 0, errors = [], outbox = [] \<rparr>"

definition alert_46000 :: PriceAlert where
  "alert_46000 =
     \<lparr> a_id = ''alert-3'', a_product_id = ''prod-1'', a_user_id = ''user-1'',
       target_price = 46000, is_active = True, a_created_at = 300, a_updated_at = 300 \<rparr>"

definition db4 :: db where
  \<comment> \<open>One stale product, last seen at 47000, with an alert at 46000 and one at 25000.\<close>
  "db4 = \<lparr> products = [prod1], price_alerts = [alert_46000, alert_25000] \<rparr>"

section \<open>Auxiliary notions for the proofs\<close>

definition nonneg :: "jsnum \<Rightarrow> bool" where
  \<comment> \<open>Not a negative number: what every price variable of the scraper satisfies.\<close>
  "nonneg x = (case x of NaN \<Rightarrow> True | Fin n \<Rightarrow> 0 \<le> n)"

definition deactivates :: "item_env \<Rightarrow> PriceAlert \<Rightarrow> bool" where
  \<comment> \<open>Whether the loop of \<open>checkPriceAlerts\<close> reaches and applies the deactivating
      update for an alert it has found.\<close>
  "deactivates env a =
     (case getUserById env (a_user_id a) of
        LookupThrows \<Rightarrow> False
      | NoEmail \<Rightarrow> alert_update_ok env (a_id a)
      | Email e \<Rightarrow> \<not> send_throws env (a_id a) \<and> alert_update_ok env (a_id a))"

definition intent_for :: "item_env \<Rightarrow> uuid \<Rightarrow> int \<Rightarrow> PriceAlert \<Rightarrow> notification list" where
  \<comment> \<open>The notification requests made for one alert that was found: one when the owner's
      address is known, none otherwise.\<close>
  "intent_for env pid newPrice a =
     (case getUserById env (a_user_id a) of
        Email e \<Rightarrow> [PriceTargetReached e pid (a_id a) newPrice]
      | _ \<Rightarrow> [])"

fun about_alert :: "uuid \<Rightarrow> notification \<Rightarrow> bool" where
  "about_alert aid (PriceTargetReached e pid a n) = (a = aid)"
| "about_alert aid (BackInStock e pid) = False"

definition switch_off :: "timestamp \<Rightarrow> PriceAlert \<Rightarrow> PriceAlert" where
  "switch_off t a = a\<lparr>is_active := False, a_updated_at := t\<rparr>"

definition hit :: "item_env \<Rightarrow> product \<Rightarrow> PriceAlert \<Rightarrow> bool" where
  \<comment> \<open>The iteration of the sweep for the product \<open>p\<close> deactivates the alert \<open>a\<close>: the
      scrape and the update succeed, the price has dropped (the gate before
      \<open>checkPriceAlerts\<close>), the alert query answers, the alert is an active alert of
      \<open>p\<close> whose target is at least the new price, and the loop applies its update.\<close>
  "hit env p a =
     (case scrapeProduct (fetch env) of
        Inl e \<Rightarrow> False
      | Inr d \<Rightarrow>
          update_error env = None \<and> \<not> is_out_of_stock d \<and> priceChanged p d \<and>
          lastPrice p > sale_price d \<and> \<not> alerts_query_error env \<and>
          triggered (p_id p) (sale_price d) a \<and> deactivates env a)"

definition swept_alert :: "(uuid \<Rightarrow> item_env) \<Rightarrow> product list \<Rightarrow> PriceAlert \<Rightarrow> PriceAlert" where
  \<comment> \<open>An alert after a sweep over the products \<open>ps\<close>: set inactive when the iteration
      for its product deactivates it, the same row otherwise.\<close>
  "swept_alert envs ps a =
     (case find (\<lambda>p. p_id p = a_product_id a) ps of
        None \<Rightarrow> a
      | Some p \<Rightarrow>
          if hit (envs (p_id p)) p a
          then a\<lparr>is_active := False, a_updated_at := now (envs (p_id p))\<rparr>
          else a)"

definition item_failure :: "item_env \<Rightarrow> product \<Rightarrow> string option" where
  \<comment> \<open>The error entry that one iteration of the sweep records for a product, if any.\<close>
  "item_failure env p =
     (case scrapeProduct (fetch env) of
        Inl e \<Rightarrow> Some (''Failed to scrape product '' @ p_id p @ '': '' @ message e)
      | Inr d \<Rightarrow>
          (case update_error env of
             Some msg \<Rightarrow> Some (''Failed to update product '' @ p_id p @ '': '' @ msg)
           | None \<Rightarrow> None))"

definition reconciled_row :: "item_env \<Rightarrow> product \<Rightarrow> product \<Rightarrow> product" where
  \<comment> \<open>The stored row \<open>r\<close> after the iteration for the product \<open>p\<close> (as read at the start of
      the sweep): rewritten from the scraped data when the scrape and the update succeed,
      untouched otherwise.\<close>
  "reconciled_row env p r =
     (case scrapeProduct (fetch env) of
        Inl e \<Rightarrow> r
      | Inr d \<Rightarrow>
          (case update_error env of
             Some msg \<Rightarrow> r
           | None \<Rightarrow> store_scrape d (newPriceHistory p d (now env)) (now env) r))"

section \<open>Properties of the Extractor\<close>

lemmas extractor_defs =
  scrapeProduct_def scrape_try_def scrape_page_def extract_condition_def
  extract_image_url_def final_prices_def
  extract_mrp_def extract_sale_price_def parseInt_def strip_commas_def is_digit_def
  digit_val_def or_default_def str_or_def out_of_stock_backfill_def js_or_def js_plus_def
  in_price_range_def scrapeProduct_intake_def fallback_data_def url_title_def to_upper_def

lemmas page_defs =
  blank_page_def priced_page_def sold_out_page_def sold_out_listed_page_def

lemma nonneg_parseInt: "nonneg (parseInt s)"
  by (simp add: parseInt_def nonneg_def Let_def)

lemma nonneg_fallback_price: "nonneg cur \<Longrightarrow> nonneg (fallback_price ms cur)"
  by (induction ms cur rule: fallback_price.induct) (simp_all add: Let_def nonneg_parseInt)

lemma nonneg_extract_mrp: "nonneg (extract_mrp pg)"
  by (auto simp: extract_mrp_def Let_def nonneg_parseInt
           intro!: nonneg_fallback_price split: option.splits)
     (simp add: nonneg_def)

lemma nonneg_extract_sale_price: "nonneg (extract_sale_price pg)"
  by (auto simp: extract_sale_price_def Let_def nonneg_parseInt
           intro!: nonneg_fallback_price split: option.splits)
     (simp_all add: nonneg_def)

lemma nonneg_backfill:
  "nonneg a \<Longrightarrow> nonneg b \<Longrightarrow>
   nonneg (fst (out_of_stock_backfill (a, b))) \<and> nonneg (snd (out_of_stock_backfill (a, b)))"
  by (auto simp: out_of_stock_backfill_def js_or_def js_plus_def nonneg_def split: jsnum.splits)

lemma nonneg_final_prices: "nonneg (fst (final_prices pg)) \<and> nonneg (snd (final_prices pg))"
  using nonneg_backfill[OF nonneg_extract_mrp nonneg_extract_sale_price, of pg pg]
  by (simp add: final_prices_def Let_def nonneg_extract_mrp nonneg_extract_sale_price)

lemma or_default_pos: "nonneg a \<Longrightarrow> 0 < d \<Longrightarrow> 0 < or_default a d"
  by (auto simp: or_default_def nonneg_def split: jsnum.splits)

lemma scrape_page_positive:
  "scrape_page pg = Inr d \<Longrightarrow> 0 < mrp d \<and> 0 < sale_price d"
  using nonneg_final_prices[of pg]
  by (auto simp: scrape_page_def or_default_pos split: sum.splits prod.splits if_splits)





lemma blank_page_condition: "extract_condition blank_page = Inr ''Good''"
  by (simp add: extract_condition_def blank_page_def)

lemma one_word_page_throws: "scrapeProduct (Fetched one_word_page) = Inl UndefinedTrim"
  by (simp add: scrapeProduct_def scrape_try_def scrape_page_def extract_condition_def
        one_word_page_def blank_page_def)

lemma priced_page_scrape:
  "scrapeProduct (Fetched priced_page) =
     Inr \<lparr> title = ''Apple iPhone 12'', mrp = 49999, sale_price = 45499, discount = ''0%'',
           condition = ''Good'', storage = ''128GB'', ram = Some [], color = Some [],
           image_url = None, is_out_of_stock = False \<rparr>"
  by (simp add: extractor_defs page_defs)

text \<open>
  C10.  Whatever \<open>scrapeProduct\<close> returns has a list price and a sale price above zero:
  the copy of \<open>update-prices\<close> when it returns at all, and the copy of the scrape-product
  function always (it returns its placeholder data where the other one throws).
\<close>

theorem returned_prices_positive:
  "(scrapeProduct r = Inr d \<longrightarrow> 0 < mrp d \<and> 0 < sale_price d) \<and>
   0 < mrp (scrapeProduct_intake url r) \<and> 0 < sale_price (scrapeProduct_intake url r)"
  by (auto simp: scrapeProduct_def scrape_try_def scrapeProduct_intake_def fallback_data_def
                 Let_def
           dest: scrape_page_positive split: fetch_result.splits sum.splits)

theorem returned_prices_positive_witness:
  "scrapeProduct (Fetched priced_page) =
     Inr \<lparr> title = ''Apple iPhone 12'', mrp = 49999, sale_price = 45499, discount = ''0%'',
           condition = ''Good'', storage = ''128GB'', ram = Some [], color = Some [],
           image_url = None, is_out_of_stock = False \<rparr> \<and>
   (0::int) < 49999 \<and> (0::int) < 45499 \<and>
   0 < mrp (scrapeProduct_intake ''https://www.cashify.in/x'' (Fetched priced_page))"
  using returned_prices_positive[of "Fetched priced_page"
      "\<lparr> title = ''Apple iPhone 12'', mrp = 49999, sale_price = 45499, discount = ''0%'',
           condition = ''Good'', storage = ''128GB'', ram = Some [], color = Some [],
           image_url = None, is_out_of_stock = False \<rparr>" "''https://www.cashify.in/x''"]
    priced_page_scrape
  by simp

lemma backfill_block_cases:
  "(\<not> truthy m \<and> \<not> truthy s \<longrightarrow> out_of_stock_backfill (m, s) = (Fin 50000, Fin 45000)) \<and>
   (truthy m \<and> \<not> truthy s \<longrightarrow> out_of_stock_backfill (m, s) = (m, m)) \<and>
   (\<not> truthy m \<and> truthy s \<longrightarrow> out_of_stock_backfill (m, s) = (js_plus s 5000, s))"
  by (simp add: out_of_stock_backfill_def js_or_def)




lemma final_prices_unresolved:
  "\<not> truthy (fst (final_prices pg)) \<Longrightarrow> \<not> truthy (snd (final_prices pg)) \<Longrightarrow>
   \<not> outOfStock pg \<and> \<not> truthy (extract_mrp pg) \<and> \<not> truthy (extract_sale_price pg)"
  by (auto simp: final_prices_def out_of_stock_backfill_def js_or_def js_plus_def Let_def
           split: if_splits)

lemma blank_page_prices: "final_prices blank_page = (Fin 0, Fin 0)"
  by (simp add: extractor_defs page_defs)

lemma blank_page_image: "extract_image_url blank_page = Inr []"
  by (simp add: extractor_defs page_defs)

lemma blank_page_fails: "scrape_try (Fetched blank_page) = Inl NoPriceData"
  by (simp add: scrape_try_def scrape_page_def blank_page_prices blank_page_image
        blank_page_condition)

lemma fallback_track_url:
  "fallback_data track_url =
     \<lparr> title = ''Cashify Apple iphone 12'', mrp = 50000, sale_price = 45000, discount = ''10%'',
       condition = ''Good'', storage = ''128GB'', ram = None, color = None, image_url = None,
       is_out_of_stock = False \<rparr>"
  by (simp add: extractor_defs track_url_def)

text \<open>
  C2 (as stated).  The claim fails for the scraper of the scrape-product function: on the
  in-stock page where no price pattern matches, it returns a result (the placeholder
  data) instead of failing.
\<close>

theorem intake_scraper_returns_on_no_price:
  "\<not> truthy (fst (final_prices blank_page)) \<and> \<not> truthy (snd (final_prices blank_page)) \<and>
   scrapeProduct_intake track_url (Fetched blank_page) =
     \<lparr> title = ''Cashify Apple iphone 12'', mrp = 50000, sale_price = 45000, discount = ''10%'',
       condition = ''Good'', storage = ''128GB'', ram = None, color = None, image_url = None,
       is_out_of_stock = False \<rparr>"
  by (simp add: scrapeProduct_intake_def blank_page_fails blank_page_prices fallback_track_url)

text \<open>
  C2 (amended).  When neither price is there after all the rules, the backfill included,
  \<open>scrapeProduct\<close> of \<open>update-prices\<close> returns no result: it throws, and what it throws is
  \<open>Could not extract price information from the page\<close> whenever no earlier statement of
  the \<open>try\<close> body has thrown (the condition cascade and the image reference come before
  the check of the prices).  The copy in the scrape-product function catches whatever is
  thrown and returns its placeholder data.
\<close>

theorem no_price_data_fails:
  assumes "\<not> truthy (fst (final_prices pg))" and "\<not> truthy (snd (final_prices pg))"
  shows "(\<exists>e. scrapeProduct (Fetched pg) = Inl e) \<and>
         (\<forall>c img. extract_condition pg = Inr c \<and> extract_image_url pg = Inr img \<longrightarrow>
            scrapeProduct (Fetched pg) = Inl NoPriceData) \<and>
         scrapeProduct_intake url (Fetched pg) = fallback_data url"
proof -
  obtain m s where ms: "final_prices pg = (m, s)"
    by (cases "final_prices pg")
  have "scrape_page pg =
          (case extract_condition pg of
             Inl e \<Rightarrow> Inl e
           | Inr c \<Rightarrow>
               (case extract_image_url pg of Inl e \<Rightarrow> Inl e | Inr img \<Rightarrow> Inl NoPriceData))"
    using assms ms by (simp add: scrape_page_def split: sum.splits)
  then show ?thesis
    by (auto simp: scrapeProduct_def scrape_try_def scrapeProduct_intake_def
             split: sum.splits)
qed

theorem no_price_data_fails_witness:
  "\<not> truthy (fst (final_prices blank_page)) \<and> \<not> truthy (snd (final_prices blank_page)) \<and>
   extract_condition blank_page = Inr ''Good'' \<and> extract_image_url blank_page = Inr [] \<and>
   scrapeProduct (Fetched blank_page) = Inl NoPriceData \<and>
   scrapeProduct_intake track_url (Fetched blank_page) = fallback_data track_url"
  using no_price_data_fails[of blank_page track_url] blank_page_prices blank_page_image
    blank_page_condition
  by simp

section \<open>Properties of the intake handler\<close>

lemma track_url_ok: "str_includes track_url ''cashify.in''"
  by (simp add: track_url_def)

lemma foreign_url_ok: "str_includes foreign_url ''cashify.in''"
  by (simp add: foreign_url_def)

lemma bearer_token: "remove_first ''Bearer '' ''Bearer token-1'' = ''token-1''"
  by simp

text \<open>
  C1 (as stated).  The claim fails: a first request for a page without price data is
  answered with success, and a row with the placeholder prices is stored.
\<close>

theorem intake_failure_creates_record:
  "scrape_try (fetch_url track_env0 track_url) = Inl NoPriceData \<and>
   products empty_db = [] \<and>
   response (track_product track_env0 (track_req track_url) empty_db) =
     TrackingStarted (new_product track_env0 ''user-1'' track_url (fallback_data track_url)) \<and>
   products (store_after (track_product track_env0 (track_req track_url) empty_db)) =
     [new_product track_env0 ''user-1'' track_url (fallback_data track_url)] \<and>
   p_sale_price (new_product track_env0 ''user-1'' track_url (fallback_data track_url)) = 45000"
  using blank_page_fails track_url_ok bearer_token
  by (simp add: track_product_def single_def track_req_def track_env0_def empty_db_def
          scrapeProduct_intake_def new_product_def fallback_data_def Let_def)
     (simp add: track_url_def)

text \<open>
  C1 (amended).  A first-time request that passes the checks of the handler (a URL with
  the text \<open>cashify.in\<close>, a non-empty \<open>Authorization\<close> header whose token names a user,
  no row of that user for the URL) and whose scrape ends in a failure (of the fetch or of the extraction) is not answered with that
  failure: the scraper has replaced it by its placeholder data (list price 50000, sale
  price 45000), the handler inserts a row with them and reports success.  The only error
  answered after the fetch is that of a rejected insert, and then no row is stored.
\<close>

theorem intake_failure_stores_placeholder:
  assumes "body req = UrlField url" and "url \<noteq> []" and "str_includes url ''cashify.in''"
    and "authorization req = Some hdr" and "hdr \<noteq> []"
    and "getUser env (remove_first ''Bearer '' hdr) = Some uid"
    and "filter (\<lambda>r. p_user_id r = uid \<and> p_url r = url) (products d) = []"
    and "scrape_try (fetch_url env url) = Inl e"
  shows "track_product env req d =
           (if insert_error env
            then \<lparr> response = ErrorResponse 500 ''Failed to save product data'',
                   store_after = d, fetches = [url] \<rparr>
            else \<lparr> response = TrackingStarted (new_product env uid url (fallback_data url)),
                   store_after = d\<lparr> products := products d @
                                   [new_product env uid url (fallback_data url)] \<rparr>,
                   fetches = [url] \<rparr>) \<and>
         p_mrp (new_product env uid url (fallback_data url)) = 50000 \<and>
         p_sale_price (new_product env uid url (fallback_data url)) = 45000"
  using assms
  by (simp add: track_product_def single_def scrapeProduct_intake_def Let_def
        new_product_def fallback_data_def)

theorem intake_failure_stores_placeholder_witness:
  "scrape_try (fetch_url track_env0 track_url) = Inl NoPriceData \<and>
   track_product track_env0 (track_req track_url) empty_db =
     \<lparr> response = TrackingStarted
                    (new_product track_env0 ''user-1'' track_url (fallback_data track_url)),
       store_after =
         \<lparr> products = [new_product track_env0 ''user-1'' track_url (fallback_data track_url)],
           price_alerts = [] \<rparr>,
       fetches = [track_url] \<rparr>"
proof -
  have f: "scrape_try (fetch_url track_env0 track_url) = Inl NoPriceData"
    by (simp add: track_env0_def blank_page_fails)
  have "track_url \<noteq> []" by (simp add: track_url_def)
  moreover have "''Bearer token-1'' \<noteq> []" by simp
  ultimately show ?thesis
    using intake_failure_stores_placeholder[of "track_req track_url" track_url
        "''Bearer token-1''" track_env0 "''user-1''" empty_db NoPriceData]
      f track_url_ok bearer_token
    by (simp add: track_req_def track_env0_def empty_db_def)
qed

lemma tracked_url_rejected_before_fetch:
  assumes "body req = UrlField url" and "url \<noteq> []" and "str_includes url ''cashify.in''"
    and "authorization req = Some hdr" and "hdr \<noteq> []"
    and "getUser env (remove_first ''Bearer '' hdr) = Some uid"
    and "filter (\<lambda>r. p_user_id r = uid \<and> p_url r = url) (products d) = [row]"
  shows "track_product env req d =
           \<lparr> response = ErrorResponse 400 ''Product is already being tracked'',
             store_after = d, fetches = [] \<rparr>"
  using assms by (simp add: track_product_def single_def)

text \<open>
  C9.  The handler tests \<open>url.includes('cashify.in')\<close> only.  A URL of another host with
  that text in its path, which the client form's \<open>validateCashifyUrl\<close> refuses, is
  accepted by the handler, fetched, and stored as a tracked product.
\<close>

theorem handler_accepts_foreign_url:
  "\<not> validateCashifyUrl (Some ''evil.example'') foreign_url \<and>
   response (track_product track_env0 (track_req foreign_url) empty_db) =
     TrackingStarted (new_product track_env0 ''user-1'' foreign_url (fallback_data foreign_url)) \<and>
   fetches (track_product track_env0 (track_req foreign_url) empty_db) = [foreign_url] \<and>
   map p_url (products (store_after (track_product track_env0 (track_req foreign_url) empty_db))) =
     [foreign_url]"
  using foreign_url_ok bearer_token blank_page_fails
  by (simp add: validateCashifyUrl_def track_product_def single_def track_req_def
          track_env0_def empty_db_def scrapeProduct_intake_def new_product_def Let_def)
     (simp add: foreign_url_def)

section \<open>Properties of the Notifier\<close>

lemma deactivate_map:
  "deactivate t aid tbl = map (\<lambda>r. if a_id r = aid then switch_off t r else r) tbl"
  by (simp add: deactivate_def switch_off_def)

lemma notify_alerts_eq:
  "notify_alerts env pid np as (tbl, out) =
     (map (\<lambda>r. if a_id r \<in> a_id ` {a \<in> set as. deactivates env a}
               then switch_off (now env) r else r) tbl,
      out @ concat (map (intent_for env pid np) as))"
proof (induction as arbitrary: tbl out)
  case Nil
  then show ?case by (simp add: map_idI)
next
  case (Cons a as)
  have id1: "a_id (switch_off t r) = a_id r" for t r
    by (simp add: switch_off_def)
  have idem: "switch_off t (switch_off t r) = switch_off t r" for t r
    by (simp add: switch_off_def)
  show ?case
  proof (cases "getUserById env (a_user_id a)")
    case LookupThrows
    then show ?thesis
      using Cons.IH[of tbl out]
      by (auto simp: deactivates_def intent_for_def intro!: map_cong)
  next
    case NoEmail
    then show ?thesis
      using Cons.IH[of tbl out] Cons.IH[of "deactivate (now env) (a_id a) tbl" out]
      by (auto simp: deactivates_def intent_for_def deactivate_map id1 idem o_def)
  next
    case (Email e)
    then show ?thesis
      using Cons.IH[of tbl "out @ [PriceTargetReached e pid (a_id a) np]"]
        Cons.IH[of "deactivate (now env) (a_id a) tbl" "out @ [PriceTargetReached e pid (a_id a) np]"]
      by (auto simp: deactivates_def intent_for_def deactivate_map id1 idem o_def)
  qed
qed

lemma distinct_id_eq:
  "distinct (map a_id tbl) \<Longrightarrow> r \<in> set tbl \<Longrightarrow> a \<in> set tbl \<Longrightarrow> a_id r = a_id a \<Longrightarrow> r = a"
  by (meson distinct_map inj_onD)

lemma checkPriceAlerts_eq:
  assumes "distinct (map a_id tbl)" and "\<not> alerts_query_error env"
  shows "checkPriceAlerts env tbl pid np =
     (map (\<lambda>a. if triggered pid np a \<and> deactivates env a then switch_off (now env) a else a) tbl,
      concat (map (intent_for env pid np) (filter (triggered pid np) tbl)))"
proof -
  have "(a_id r \<in> a_id ` {a \<in> set (filter (triggered pid np) tbl). deactivates env a})
        = (triggered pid np r \<and> deactivates env r)" if "r \<in> set tbl" for r
    using that distinct_id_eq[OF assms(1) that] by auto
  then show ?thesis
    using assms(2) by (simp add: checkPriceAlerts_def notify_alerts_eq cong: map_cong)
qed


lemma about_intent_for:
  "filter (about_alert aid) (intent_for env pid np a) =
     (if a_id a = aid then intent_for env pid np a else [])"
  by (auto simp: intent_for_def split: user_lookup.splits)

lemma intents_about_other:
  "a_id a \<notin> a_id ` set as \<Longrightarrow>
   filter (about_alert (a_id a)) (concat (map (intent_for env pid np) as)) = []"
proof (induction as)
  case Nil
  then show ?case by simp
next
  case (Cons b as)
  from Cons.prems have ne: "a_id b \<noteq> a_id a" and rest: "a_id a \<notin> a_id ` set as"
    by auto
  from Cons.IH[OF rest] ne show ?case
    by (simp add: about_intent_for)
qed

lemma intents_about:
  "distinct (map a_id as) \<Longrightarrow> a \<in> set as \<Longrightarrow>
   filter (about_alert (a_id a)) (concat (map (intent_for env pid np) as)) = intent_for env pid np a"
proof (induction as)
  case Nil
  then show ?case by simp
next
  case (Cons b as)
  from Cons.prems(1) have nb: "a_id b \<notin> a_id ` set as" and d: "distinct (map a_id as)"
    by simp_all
  show ?case
  proof (cases "b = a")
    case True
    with nb have "a_id a \<notin> a_id ` set as" by simp
    then have "filter (about_alert (a_id a)) (concat (map (intent_for env pid np) as)) = []"
      by (rule intents_about_other)
    then show ?thesis using True by (simp add: about_intent_for)
  next
    case False
    with Cons.prems(2) have mem: "a \<in> set as" by simp
    with nb have ne: "a_id b \<noteq> a_id a" by force
    from Cons.IH[OF d mem] ne show ?thesis
      by (simp add: about_intent_for)
  qed
qed

text \<open>
  C3 (amended).  \<open>checkPriceAlerts\<close> for a new price, when its alert query succeeds
  (alert ids are the primary key of the table): every active alert of the product whose
  target is at least the new price gives one notification request if the owner's address
  is found and none otherwise, and it is set inactive exactly when the owner lookup did
  not throw, the send (if there was one) did not throw and the update was applied; so an
  alert whose owner has no address is deactivated without a request, and one whose send
  throws stays active.  Every other alert gives no request and is left as it is.
\<close>

theorem price_alerts_triggered:
  assumes "distinct (map a_id tbl)" and "\<not> alerts_query_error env"
    and "checkPriceAlerts env tbl pid newPrice = (tbl', out)"
  shows "tbl' = map (\<lambda>a. if triggered pid newPrice a \<and> deactivates env a
                         then a\<lparr>is_active := False, a_updated_at := now env\<rparr> else a) tbl \<and>
         (\<forall>a \<in> set tbl.
            filter (about_alert (a_id a)) out =
              (if triggered pid newPrice a then intent_for env pid newPrice a else []))"
proof -
  let ?hit = "filter (triggered pid newPrice) tbl"
  have eq1: "tbl' = map (\<lambda>a. if triggered pid newPrice a \<and> deactivates env a
                              then switch_off (now env) a else a) tbl"
    and eq2: "out = concat (map (intent_for env pid newPrice) ?hit)"
    using checkPriceAlerts_eq[OF assms(1,2), of pid newPrice] assms(3) by simp_all
  have d: "distinct (map a_id ?hit)"
    using assms(1) by (rule distinct_map_filter)
  have "filter (about_alert (a_id a)) out =
              (if triggered pid newPrice a then intent_for env pid newPrice a else [])"
    if a: "a \<in> set tbl" for a
  proof (cases "triggered pid newPrice a")
    case True
    with a have "a \<in> set ?hit" by simp
    from intents_about[OF d this] True eq2 show ?thesis by simp
  next
    case False
    have "a_id a \<notin> a_id ` set ?hit"
    proof
      assume "a_id a \<in> a_id ` set ?hit"
      then obtain r where r: "r \<in> set tbl" "triggered pid newPrice r" "a_id r = a_id a"
        by force
      from distinct_id_eq[OF assms(1) r(1) a r(3)] r(2) False show False by simp
    qed
    from intents_about_other[OF this] False eq2 show ?thesis by simp
  qed
  with eq1 show ?thesis by (simp add: switch_off_def)
qed

lemmas alert_defs = alert_30000_def alert_25000_def good_env_def no_email_env_def
  send_fails_env_def

lemma good_env_check:
  "checkPriceAlerts good_env [alert_30000, alert_25000] ''prod-1'' 29000 =
     ([alert_30000 \<lparr> is_active := False, a_updated_at := 9000000 \<rparr>, alert_25000],
      [PriceTargetReached ''user@example.org'' ''prod-1'' ''alert-1'' 29000])"
  by (simp add: checkPriceAlerts_def triggered_def deactivate_def alert_defs)

theorem price_alerts_triggered_witness:
  "distinct (map a_id [alert_30000, alert_25000]) \<and> \<not> alerts_query_error good_env \<and>
   triggered ''prod-1'' 29000 alert_30000 \<and> \<not> triggered ''prod-1'' 29000 alert_25000 \<and>
   deactivates good_env alert_30000 \<and>
   checkPriceAlerts good_env [alert_30000, alert_25000] ''prod-1'' 29000 =
     ([alert_30000 \<lparr> is_active := False, a_updated_at := 9000000 \<rparr>, alert_25000],
      [PriceTargetReached ''user@example.org'' ''prod-1'' ''alert-1'' 29000]) \<and>
   filter (about_alert (a_id alert_30000))
     [PriceTargetReached ''user@example.org'' ''prod-1'' ''alert-1'' 29000] =
     [PriceTargetReached ''user@example.org'' ''prod-1'' ''alert-1'' 29000] \<and>
   filter (about_alert (a_id alert_25000))
     [PriceTargetReached ''user@example.org'' ''prod-1'' ''alert-1'' 29000] = []"
proof -
  have d: "distinct (map a_id [alert_30000, alert_25000])"
    by (simp add: alert_defs)
  have q: "\<not> alerts_query_error good_env"
    by (simp add: good_env_def)
  have t: "triggered ''prod-1'' 29000 alert_30000" "\<not> triggered ''prod-1'' 29000 alert_25000"
    "deactivates good_env alert_30000"
    by (simp_all add: triggered_def deactivates_def alert_defs)
  have i: "intent_for good_env ''prod-1'' 29000 alert_30000 =
             [PriceTargetReached ''user@example.org'' ''prod-1'' ''alert-1'' 29000]"
    by (simp add: intent_for_def alert_defs)
  from price_alerts_triggered[OF d q good_env_check] d q t i show ?thesis
    by (simp add: good_env_check)
qed

text \<open>
  C3 (as stated).  The claim fails on an alert that is active with target 30000 against
  the new price 29000: when the owner has no e-mail address it is deactivated and no
  notification is requested, and when the send throws the request was made but the alert
  stays active.
\<close>

theorem alert_deactivated_without_notice:
  "triggered ''prod-1'' 29000 alert_30000 \<and>
   checkPriceAlerts no_email_env [alert_30000] ''prod-1'' 29000 =
     ([alert_30000 \<lparr> is_active := False, a_updated_at := 9000000 \<rparr>], []) \<and>
   checkPriceAlerts send_fails_env [alert_30000] ''prod-1'' 29000 =
     ([alert_30000], [PriceTargetReached ''user@example.org'' ''prod-1'' ''alert-1'' 29000])"
  by (simp add: checkPriceAlerts_def triggered_def deactivate_def alert_defs)


lemma update_item_alerts:
  assumes "distinct (map a_id (price_alerts (store st)))"
  shows "price_alerts (store (update_item env p st)) =
           map (\<lambda>a. if hit env p a then switch_off (now env) a else a) (price_alerts (store st))"
proof (cases "scrapeProduct (fetch env)")
  case (Inl e)
  then show ?thesis by (simp add: update_item_def hit_def map_idI)
next
  case (Inr d)
  show ?thesis
  proof (cases "update_error env")
    case (Some msg)
    with Inr show ?thesis by (simp add: update_item_def hit_def map_idI)
  next
    case None
    show ?thesis
    proof (cases "\<not> is_out_of_stock d \<and> priceChanged p d \<and> lastPrice p > sale_price d")
      case False
      with Inr None have "hit env p a = False" for a
        by (auto simp: hit_def)
      with Inr None False show ?thesis
        by (auto simp: update_item_def Let_def map_idI)
    next
      case True
      show ?thesis
      proof (cases "alerts_query_error env")
        case qe: True
        with Inr None have "hit env p a = False" for a
          by (auto simp: hit_def)
        with Inr None True qe show ?thesis
          by (simp add: update_item_def Let_def checkPriceAlerts_def map_idI)
      next
        case qe: False
        from Inr None True qe have h: "hit env p a = (triggered (p_id p) (sale_price d) a \<and> deactivates env a)" for a
          by (simp add: hit_def)
        from checkPriceAlerts_eq[OF assms qe, of "p_id p" "sale_price d"]
        have "fst (checkPriceAlerts env (price_alerts (store st)) (p_id p) (sale_price d)) =
                map (\<lambda>a. if hit env p a then switch_off (now env) a else a) (price_alerts (store st))"
          by (simp add: h)
        with Inr None True show ?thesis
          by (auto simp: update_item_def Let_def split: prod.splits)
      qed
    qed
  qed
qed

lemma hit_product: "hit env p a \<Longrightarrow> a_product_id a = p_id p"
  by (auto simp: hit_def triggered_def split: sum.splits)

lemma sweep_alerts:
  "distinct (map p_id ps) \<Longrightarrow> distinct (map a_id (price_alerts (store st))) \<Longrightarrow>
   price_alerts (store (sweep envs ps st)) = map (swept_alert envs ps) (price_alerts (store st))"
proof (induction ps arbitrary: st)
  case Nil
  then show ?case by (simp add: swept_alert_def map_idI)
next
  case (Cons p ps)
  let ?st = "update_item (envs (p_id p)) p st"
  let ?F = "\<lambda>a. if hit (envs (p_id p)) p a then switch_off (now (envs (p_id p))) a else a"
  from Cons.prems have nin: "p_id p \<notin> p_id ` set ps" and d: "distinct (map p_id ps)"
    by simp_all
  have step: "price_alerts (store ?st) = map ?F (price_alerts (store st))"
    using Cons.prems(2) by (rule update_item_alerts)
  have ids: "map a_id (map ?F (price_alerts (store st))) = map a_id (price_alerts (store st))"
    by (simp add: switch_off_def o_def)
  have d': "distinct (map a_id (price_alerts (store ?st)))"
    using Cons.prems(2) by (simp only: step ids)
  have none: "find (\<lambda>q. p_id q = p_id p) ps = None"
    using nin by (auto simp: find_None_iff image_iff)
  have pt: "swept_alert envs ps (?F a) = swept_alert envs (p # ps) a" for a
  proof (cases "a_product_id a = p_id p")
    case True
    then show ?thesis
      using none by (simp add: swept_alert_def switch_off_def)
  next
    case False
    then have "\<not> hit (envs (p_id p)) p a"
      using hit_product by blast
    then show ?thesis
      using False by (auto simp: swept_alert_def)
  qed
  show ?case
    using Cons.IH[OF d d'] by (simp add: step pt)
qed

text \<open>
  C4 (amended).  What the sweep does to the alerts (product ids and alert ids are primary
  keys): after \<open>update-prices\<close> the table holds the same alerts in the same order, and an
  alert differs from before only in having been set inactive, which happens exactly when
  the iteration for its product deactivates it.  That needs a price-target match: the
  alert was active, and the product's price dropped to a value that is at most the
  alert's target.  The alert dialog is not so restricted: \<open>handleToggleAlert\<close> sets an
  alert of the user to the opposite of the state the dialog shows, so a triggered alert
  becomes active again without a new alert being created, and \<open>handleDeleteAlert\<close>
  deletes it.
\<close>

theorem alert_transitions:
  assumes "distinct (map p_id (products d))" and "distinct (map a_id (price_alerts d))"
  shows "price_alerts (fst (snd (update_prices fetchError t envs d))) =
           (if fetchError then price_alerts d
            else map (swept_alert envs (filter (stale t) (products d))) (price_alerts d)) \<and>
         (hit env p a \<longrightarrow>
            is_active a \<and> a_product_id a = p_id p \<and>
            (\<exists>sd. scrapeProduct (fetch env) = Inr sd \<and> sale_price sd < lastPrice p \<and>
                  of_int (sale_price sd) \<le> target_price a)) \<and>
         (r \<in> set tbl \<and> a_id r = aid \<and> a_user_id r = uid \<longrightarrow>
            r\<lparr>is_active := \<not> isActive, a_updated_at := t'\<rparr>
              \<in> set (handleToggleAlert True t' uid aid isActive tbl)) \<and>
         (\<forall>r \<in> set (handleDeleteAlert True uid aid tbl). \<not> (a_id r = aid \<and> a_user_id r = uid))"
proof -
  let ?ps = "filter (stale t) (products d)"
  have dps: "distinct (map p_id ?ps)"
    using assms(1) by (rule distinct_map_filter)
  have sw: "price_alerts (store (sweep envs ?ps \<lparr> store = d, updatedCount = 0, errors = [], outbox = [] \<rparr>)) =
             map (swept_alert envs ?ps) (price_alerts d)"
    using sweep_alerts[OF dps, of "\<lparr> store = d, updatedCount = 0, errors = [], outbox = [] \<rparr>" envs] assms(2)
    by simp
  have empty: "map (swept_alert envs []) (price_alerts d) = price_alerts d"
    by (simp add: swept_alert_def map_idI)
  have a: "price_alerts (fst (snd (update_prices fetchError t envs d))) =
           (if fetchError then price_alerts d
            else map (swept_alert envs ?ps) (price_alerts d))"
    using sw empty by (simp add: update_prices_def Let_def)
  have b: "hit env p a \<longrightarrow>
            is_active a \<and> a_product_id a = p_id p \<and>
            (\<exists>sd. scrapeProduct (fetch env) = Inr sd \<and> sale_price sd < lastPrice p \<and>
                  of_int (sale_price sd) \<le> target_price a)"
    by (auto simp: hit_def triggered_def split: sum.splits)
  have c: "r \<in> set tbl \<and> a_id r = aid \<and> a_user_id r = uid \<longrightarrow>
      r\<lparr>is_active := \<not> isActive, a_updated_at := t'\<rparr>
        \<in> set (handleToggleAlert True t' uid aid isActive tbl)"
    by (auto simp: handleToggleAlert_def image_iff intro!: bexI[of _ r])
  have e: "\<forall>r \<in> set (handleDeleteAlert True uid aid tbl). \<not> (a_id r = aid \<and> a_user_id r = uid)"
    by (simp add: handleDeleteAlert_def)
  from a b c e show ?thesis by blast
qed

lemma hit_46000: "hit good_env prod1 alert_46000"
  by (simp add: hit_def priced_page_scrape good_env_def priceChanged_def lastPrice_def
        triggered_def deactivates_def prod1_def alert_46000_def)

lemma no_hit_25000: "\<not> hit good_env prod1 alert_25000"
  by (simp add: hit_def priced_page_scrape good_env_def priceChanged_def lastPrice_def
        triggered_def deactivates_def prod1_def alert_25000_def)

theorem alert_transitions_witness:
  "distinct (map p_id (products db4)) \<and> distinct (map a_id (price_alerts db4)) \<and>
   filter (stale 9000000) (products db4) = [prod1] \<and>
   hit good_env prod1 alert_46000 \<and> \<not> hit good_env prod1 alert_25000 \<and>
   price_alerts (fst (snd (update_prices False 9000000 (\<lambda>pid. good_env) db4))) =
     [alert_46000 \<lparr> is_active := False, a_updated_at := 9000000 \<rparr>, alert_25000] \<and>
   triggered_alert \<in> set [triggered_alert] \<and> a_id triggered_alert = ''alert-1'' \<and>
   a_user_id triggered_alert = ''user-1'' \<and>
   triggered_alert \<lparr> is_active := True, a_updated_at := 9500000 \<rparr>
     \<in> set (handleToggleAlert True 9500000 ''user-1'' ''alert-1'' False [triggered_alert])"
proof -
  have d: "distinct (map p_id (products db4))" "distinct (map a_id (price_alerts db4))"
    by (simp_all add: db4_def alert_46000_def alert_25000_def)
  have f: "filter (stale 9000000) (products db4) = [prod1]"
    by (simp add: db4_def stale_def prod1_def)
  have s: "swept_alert (\<lambda>pid. good_env) [prod1] alert_46000 =
             alert_46000 \<lparr> is_active := False, a_updated_at := 9000000 \<rparr>"
    "swept_alert (\<lambda>pid. good_env) [prod1] alert_25000 = alert_25000"
    using hit_46000 no_hit_25000
    by (simp_all add: swept_alert_def) (simp_all add: prod1_def alert_46000_def alert_25000_def good_env_def)
  have m: "triggered_alert \<in> set [triggered_alert]" "a_id triggered_alert = ''alert-1''"
    "a_user_id triggered_alert = ''user-1''"
    by (simp_all add: triggered_alert_def alert_30000_def)
  have pa: "price_alerts db4 = [alert_46000, alert_25000]"
    by (simp add: db4_def)
  have res: "price_alerts (fst (snd (update_prices False 9000000 (\<lambda>pid. good_env) db4))) =
     [alert_46000 \<lparr> is_active := False, a_updated_at := 9000000 \<rparr>, alert_25000] \<and>
     triggered_alert \<lparr> is_active := True, a_updated_at := 9500000 \<rparr>
     \<in> set (handleToggleAlert True 9500000 ''user-1'' ''alert-1'' False [triggered_alert])"
    using alert_transitions[OF d, where fetchError = False and t = 9000000
        and envs = "\<lambda>pid. good_env" and env = good_env and p = prod1 and a = alert_46000
        and r = triggered_alert and tbl = "[triggered_alert]" and aid = "''alert-1''"
        and uid = "''user-1''" and isActive = False and t' = 9500000] m
    by (simp add: f s pa)
  from d f hit_46000 no_hit_25000 res m show ?thesis by blast
qed


text \<open>
  C4 (as stated).  The claim fails: the dialog returns a triggered alert to the active
  state, and it deletes a triggered alert.
\<close>

theorem triggered_alert_reactivated_and_deleted:
  "\<not> is_active triggered_alert \<and>
   handleToggleAlert True 9500000 ''user-1'' ''alert-1'' False [triggered_alert] =
     [triggered_alert \<lparr> is_active := True, a_updated_at := 9500000 \<rparr>] \<and>
   handleDeleteAlert True ''user-1'' ''alert-1'' [triggered_alert] = []"
  by (simp add: handleToggleAlert_def handleDeleteAlert_def triggered_alert_def alert_30000_def)


section \<open>Properties of the sweep\<close>

lemma p_id_store_scrape [simp]: "p_id (store_scrape d h t r) = p_id r"
  by (simp add: store_scrape_def)

lemma p_id_reconciled_row [simp]: "p_id (reconciled_row env p r) = p_id r"
  by (simp add: reconciled_row_def split: sum.splits option.splits)

lemma update_row_id: "update_row pid (\<lambda>r. r) tbl = tbl"
  by (simp add: update_row_def map_idI)

lemma update_item_products:
  "products (store (update_item env p st)) =
     update_row (p_id p) (reconciled_row env p) (products (store st))"
proof (cases "scrapeProduct (fetch env)")
  case (Inl e)
  then have "reconciled_row env p = (\<lambda>r. r)"
    by (simp add: reconciled_row_def fun_eq_iff)
  with Inl show ?thesis by (simp add: update_item_def update_row_id)
next
  case (Inr d)
  show ?thesis
  proof (cases "update_error env")
    case None
    with Inr have "reconciled_row env p = store_scrape d (newPriceHistory p d (now env)) (now env)"
      by (simp add: reconciled_row_def fun_eq_iff)
    with Inr None show ?thesis
      by (simp add: update_item_def Let_def split: prod.splits)
  next
    case (Some msg)
    with Inr have "reconciled_row env p = (\<lambda>r. r)"
      by (simp add: reconciled_row_def fun_eq_iff)
    with Inr Some show ?thesis by (simp add: update_item_def update_row_id)
  qed
qed

lemma update_item_counts:
  "updatedCount (update_item env p st) =
     updatedCount st + (if item_failure env p = None then 1 else 0) \<and>
   errors (update_item env p st) =
     errors st @ (case item_failure env p of None \<Rightarrow> [] | Some e \<Rightarrow> [e])"
  by (simp add: update_item_def item_failure_def Let_def
           split: sum.splits option.splits prod.splits)

lemma sweep_counts:
  "updatedCount (sweep envs ps st) =
     updatedCount st + length (filter (\<lambda>p. item_failure (envs (p_id p)) p = None) ps) \<and>
   errors (sweep envs ps st) =
     errors st @ List.map_filter (\<lambda>p. item_failure (envs (p_id p)) p) ps"
proof (induction ps arbitrary: st)
  case Nil
  then show ?case by (simp add: List.map_filter_simps)
next
  case (Cons p ps)
  show ?case
    using Cons.IH[of "update_item (envs (p_id p)) p st"]
      update_item_counts[of "envs (p_id p)" p st]
    by (simp add: List.map_filter_simps split: option.splits)
qed

lemma sweep_products:
  "distinct (map p_id ps) \<Longrightarrow>
   products (store (sweep envs ps st)) =
     map (\<lambda>r. case find (\<lambda>p. p_id p = p_id r) ps of
                None \<Rightarrow> r
              | Some p \<Rightarrow> reconciled_row (envs (p_id p)) p r) (products (store st))"
proof (induction ps arbitrary: st)
  case Nil
  then show ?case by (simp add: map_idI)
next
  case (Cons p ps)
  from Cons.prems have nin: "p_id p \<notin> p_id ` set ps" and d: "distinct (map p_id ps)"
    by simp_all
  have none: "find (\<lambda>q. p_id q = p_id p) ps = None"
    using nin by (auto simp: find_None_iff image_iff)
  show ?case
    using Cons.IH[OF d, of "update_item (envs (p_id p)) p st"]
    by (auto simp: update_item_products update_row_def none)
qed

lemma find_in_filter:
  "distinct (map p_id tbl) \<Longrightarrow> r \<in> set tbl \<Longrightarrow>
   find (\<lambda>p. p_id p = p_id r) (filter P tbl) = (if P r then Some r else None)"
proof (induction tbl)
  case Nil
  then show ?case by simp
next
  case (Cons a tbl)
  show ?case
  proof (cases "r = a")
    case True
    with Cons.prems(1) have "find (\<lambda>p. p_id p = p_id r) (filter P tbl) = None"
      by (auto simp: find_None_iff image_iff)
    with True show ?thesis by simp
  next
    case False
    with Cons.prems have mem: "r \<in> set tbl" and ne: "p_id a \<noteq> p_id r"
      by (auto simp: image_iff)
    from Cons.prems(1) have "distinct (map p_id tbl)" by simp
    from Cons.IH[OF this mem] ne show ?thesis by simp
  qed
qed

text \<open>
  C5.  A sweep over a non-empty list of stale products (product ids are the primary key):
  the response reports as \<open>updated\<close> the number of products whose scrape and update both
  succeeded and as \<open>total\<close> the length of the list; the error list has one entry for
  each other product, in order, naming that product's id; and every product that did not
  fail is reconciled in the table, whatever happened to the products before it.
\<close>

theorem sweep_isolation:
  assumes "distinct (map p_id (products d))"
    and "ps = filter (stale t) (products d)" and "ps \<noteq> []"
  shows "fst (update_prices False t envs d) =
           Completed (length (filter (\<lambda>p. item_failure (envs (p_id p)) p = None) ps))
             (length ps)
             (if List.map_filter (\<lambda>p. item_failure (envs (p_id p)) p) ps = [] then None
              else Some (List.map_filter (\<lambda>p. item_failure (envs (p_id p)) p) ps)) \<and>
         products (fst (snd (update_prices False t envs d))) =
           map (\<lambda>r. if stale t r then reconciled_row (envs (p_id r)) r r else r) (products d)"
proof -
  let ?st = "sweep envs ps \<lparr> store = d, updatedCount = 0, errors = [], outbox = [] \<rparr>"
  have dps: "distinct (map p_id ps)"
    unfolding assms(2) using assms(1) by (rule distinct_map_filter)
  have up: "update_prices False t envs d =
              (Completed (updatedCount ?st) (length ps)
                 (if errors ?st = [] then None else Some (errors ?st)),
               store ?st, outbox ?st)"
    using assms(2,3) by (simp add: update_prices_def Let_def)
  have cnt: "updatedCount ?st = length (filter (\<lambda>p. item_failure (envs (p_id p)) p = None) ps)"
    and err: "errors ?st = List.map_filter (\<lambda>p. item_failure (envs (p_id p)) p) ps"
    using sweep_counts[of envs ps "\<lparr> store = d, updatedCount = 0, errors = [], outbox = [] \<rparr>"]
    by simp_all
  have "products (store ?st) =
          map (\<lambda>r. case find (\<lambda>p. p_id p = p_id r) ps of
                None \<Rightarrow> r
              | Some p \<Rightarrow> reconciled_row (envs (p_id p)) p r) (products d)"
    using sweep_products[OF dps, of envs "\<lparr> store = d, updatedCount = 0, errors = [], outbox = [] \<rparr>"]
    by simp
  also have "\<dots> = map (\<lambda>r. if stale t r then reconciled_row (envs (p_id r)) r r else r) (products d)"
    unfolding assms(2)
    by (rule map_cong[OF refl]) (simp add: find_in_filter[OF assms(1)])
  finally have prods: "products (store ?st) =
      map (\<lambda>r. if stale t r then reconciled_row (envs (p_id r)) r r else r) (products d)" .
  from up cnt err prods show ?thesis by simp
qed

lemmas sweep_ex_defs = prod1_def prod2_def prod3_def failing_env_def sweep_envs_def db3_def
  good_env_def

lemma good_failure: "item_failure good_env p = None"
  by (simp add: item_failure_def priced_page_scrape good_env_def)

lemma failing_failure:
  "item_failure failing_env prod2 = Some ''Failed to scrape product prod-2: HTTP error! status: 503''"
  by (simp add: item_failure_def scrapeProduct_def scrape_try_def failing_env_def good_env_def prod2_def prod1_def)

theorem sweep_isolation_witness:
  "distinct (map p_id (products db3)) \<and>
   [prod1, prod2, prod3] = filter (stale 9000000) (products db3) \<and>
   [prod1, prod2, prod3] \<noteq> [] \<and>
   fst (update_prices False 9000000 sweep_envs db3) =
     Completed 2 3 (Some [''Failed to scrape product prod-2: HTTP error! status: 503'']) \<and>
   map last_checked (products (fst (snd (update_prices False 9000000 sweep_envs db3)))) =
     [9000000, 1000, 9000000]"
proof -
  have d: "distinct (map p_id (products db3))"
    by (simp add: sweep_ex_defs)
  have f: "[prod1, prod2, prod3] = filter (stale 9000000) (products db3)"
    by (simp add: sweep_ex_defs stale_def)
  have ids: "sweep_envs (p_id prod1) = good_env" "sweep_envs (p_id prod2) = failing_env"
    "sweep_envs (p_id prod3) = good_env"
    by (simp_all add: sweep_envs_def prod1_def prod2_def prod3_def)
  have st: "stale 9000000 prod1" "stale 9000000 prod2" "stale 9000000 prod3"
    by (simp_all add: stale_def prod1_def prod2_def prod3_def)
  have g: "scrapeProduct (fetch good_env) =
     Inr \<lparr> title = ''Apple iPhone 12'', mrp = 49999, sale_price = 45499, discount = ''0%'',
           condition = ''Good'', storage = ''128GB'', ram = Some [], color = Some [],
           image_url = None, is_out_of_stock = False \<rparr>"
    "update_error good_env = None" "now good_env = 9000000"
    by (simp_all add: good_env_def priced_page_scrape)
  have r: "last_checked (reconciled_row good_env prod1 prod1) = 9000000"
    "last_checked (reconciled_row good_env prod3 prod3) = 9000000"
    by (simp_all add: reconciled_row_def g store_scrape_def)
  have r2: "last_checked (reconciled_row failing_env prod2 prod2) = 1000"
    by (simp add: reconciled_row_def scrapeProduct_def scrape_try_def failing_env_def good_env_def
          prod2_def prod1_def)
  have p: "products db3 = [prod1, prod2, prod3]"
    by (simp add: db3_def)
  have res: "fst (update_prices False 9000000 sweep_envs db3) =
     Completed 2 3 (Some [''Failed to scrape product prod-2: HTTP error! status: 503'']) \<and>
   map last_checked (products (fst (snd (update_prices False 9000000 sweep_envs db3)))) =
     [9000000, 1000, 9000000]"
    using sweep_isolation[OF d f, of sweep_envs] ids st r r2 p good_failure failing_failure
    by (simp add: List.map_filter_simps)
  from d f res show ?thesis by blast
qed

lemma priced_data_scrape: "scrapeProduct (fetch good_env) = Inr priced_data"
  by (simp add: good_env_def priced_page_scrape priced_data_def)

lemma last_checked_store_scrape: "last_checked (store_scrape d h t r) = t"
  by (simp add: store_scrape_def)

text \<open>
  C6 (amended).  One iteration of the sweep for a product.  When it fails (the scrape
  throws, or the update is rejected) the store is left exactly as it was: no field of
  any row changes, \<open>last_checked\<close> included.  When it succeeds, the rows with the
  product's id are rewritten from the scraped data and their \<open>last_checked\<close> is the
  time of the iteration.
\<close>

theorem last_checked_on_reconciliation:
  "(item_failure env p \<noteq> None \<longrightarrow> store (update_item env p st) = store st) \<and>
   (item_failure env p = None \<longrightarrow>
      products (store (update_item env p st)) =
        map (\<lambda>r. if p_id r = p_id p then reconciled_row env p r else r) (products (store st)) \<and>
      (\<forall>r. last_checked (reconciled_row env p r) = now env))"
proof -
  have "store (update_item env p st) = store st" if "item_failure env p \<noteq> None"
    using that
    by (auto simp: item_failure_def update_item_def split: sum.splits option.splits)
  moreover have "products (store (update_item env p st)) =
        map (\<lambda>r. if p_id r = p_id p then reconciled_row env p r else r) (products (store st))"
    by (simp add: update_item_products update_row_def)
  moreover have "last_checked (reconciled_row env p r) = now env"
    if "item_failure env p = None" for r
    using that
    by (auto simp: item_failure_def reconciled_row_def last_checked_store_scrape
             split: sum.splits option.splits)
  ultimately show ?thesis by blast
qed

theorem last_checked_on_reconciliation_witness:
  "item_failure failing_env prod2 \<noteq> None \<and>
   store (update_item failing_env prod2 (sweep_start db3)) = db3 \<and>
   item_failure good_env prod1 = None \<and>
   map last_checked (products (store (update_item good_env prod1 (sweep_start db3)))) =
     [9000000, 1000, 1000]"
proof -
  have a: "item_failure failing_env prod2 \<noteq> None" "item_failure good_env prod1 = None"
    by (simp_all add: failing_failure good_failure)
  have ids: "p_id prod1 = ''prod-1''" "p_id prod2 = ''prod-2''" "p_id prod3 = ''prod-3''"
    "last_checked prod2 = 1000" "last_checked prod3 = 1000"
    by (simp_all add: prod1_def prod2_def prod3_def)
  from last_checked_on_reconciliation[of failing_env prod2 "sweep_start db3"]
    last_checked_on_reconciliation[of good_env prod1 "sweep_start db3"] a ids
  show ?thesis
    by (simp add: sweep_start_def db3_def good_env_def)
qed

text \<open>
  C6 (as stated).  The claim fails: after an iteration whose fetch fails at time
  9000000, \<open>last_checked\<close> of the product is still 1000.
\<close>

theorem last_checked_kept_on_failure:
  "scrapeProduct (fetch failing_env) = Inl (FetchError ''HTTP error! status: 503'') \<and>
   now failing_env = 9000000 \<and>
   map last_checked (products (store (update_item failing_env prod2 (sweep_start db3)))) =
     [1000, 1000, 1000]"
  by (simp add: update_item_def scrapeProduct_def scrape_try_def failing_env_def good_env_def sweep_start_def
        db3_def prod1_def prod2_def prod3_def)

lemma lastPrice_store_scrape:
  "lastPrice (store_scrape d (newPriceHistory p d t) t' r) =
     (if priceChanged p d then sale_price d else lastPrice p)"
  by (simp add: lastPrice_def store_scrape_def newPriceHistory_def)

text \<open>
  C7.  Let \<open>r'\<close> be a row as a successful reconciliation with the result \<open>d\<close> stores it.
  Reconciling \<open>r'\<close> with \<open>d\<close> again finds no price change and no stock change, appends
  nothing to the price history, sends no notification and leaves the alerts alone.  In
  general the history grows only when the product is in stock and the sale price differs
  from the price of the last entry (an empty history counts as price 0), and then by
  exactly one entry.
\<close>

theorem reconcile_idempotent:
  "(let r' = store_scrape d (newPriceHistory p d t1) t1 r
    in \<not> priceChanged r' d \<and> \<not> stockStatusChanged r' d \<and>
       newPriceHistory r' d t2 = price_history r' \<and>
       (scrapeProduct (fetch env) = Inr d \<longrightarrow>
          outbox (update_item env r' st) = outbox st \<and>
          price_alerts (store (update_item env r' st)) = price_alerts (store st))) \<and>
   (newPriceHistory p d t \<noteq> price_history p \<longrightarrow>
      \<not> is_out_of_stock d \<and>
      (price_history p = [] \<or> price (last (price_history p)) \<noteq> sale_price d)) \<and>
   (\<not> is_out_of_stock d \<and> lastPrice p \<noteq> sale_price d \<longrightarrow>
      newPriceHistory p d t = price_history p @ [\<lparr> price = sale_price d, checked_at = t \<rparr>])"
proof -
  let ?r = "store_scrape d (newPriceHistory p d t1) t1 r"
  have pc: "\<not> priceChanged ?r d"
    using lastPrice_store_scrape[of d p t1 t1 r]
    by (auto simp: priceChanged_def)
  have sc: "\<not> stockStatusChanged ?r d"
    by (simp add: stockStatusChanged_def store_scrape_def)
  have nh: "newPriceHistory ?r d t2 = price_history ?r"
    using pc by (simp add: newPriceHistory_def)
  have up: "outbox (update_item env ?r st) = outbox st \<and>
            price_alerts (store (update_item env ?r st)) = price_alerts (store st)"
    if "scrapeProduct (fetch env) = Inr d"
    using that pc sc by (simp add: update_item_def Let_def split: option.splits)
  have g1: "newPriceHistory p d t \<noteq> price_history p \<longrightarrow>
      \<not> is_out_of_stock d \<and>
      (price_history p = [] \<or> price (last (price_history p)) \<noteq> sale_price d)"
    by (auto simp: newPriceHistory_def priceChanged_def lastPrice_def split: if_splits)
  have g2: "\<not> is_out_of_stock d \<and> lastPrice p \<noteq> sale_price d \<longrightarrow>
      newPriceHistory p d t = price_history p @ [\<lparr> price = sale_price d, checked_at = t \<rparr>]"
    by (simp add: newPriceHistory_def priceChanged_def)
  from pc sc nh up g1 g2 show ?thesis by (simp add: Let_def)
qed

theorem reconcile_idempotent_witness:
  "scrapeProduct (fetch good_env) = Inr priced_data \<and>
   priceChanged prod1 priced_data \<and>
   newPriceHistory prod1 priced_data 9000000 =
     [\<lparr> price = 47000, checked_at = 1000 \<rparr>, \<lparr> price = 45499, checked_at = 9000000 \<rparr>] \<and>
   \<not> priceChanged (store_scrape priced_data (newPriceHistory prod1 priced_data 9000000) 9000000 prod1)
       priced_data \<and>
   newPriceHistory (store_scrape priced_data (newPriceHistory prod1 priced_data 9000000) 9000000 prod1)
       priced_data 12600000 =
     [\<lparr> price = 47000, checked_at = 1000 \<rparr>, \<lparr> price = 45499, checked_at = 9000000 \<rparr>] \<and>
   outbox (update_item good_env
             (store_scrape priced_data (newPriceHistory prod1 priced_data 9000000) 9000000 prod1)
             (sweep_start db3)) = []"
proof -
  have a: "priceChanged prod1 priced_data" "\<not> is_out_of_stock priced_data"
    "lastPrice prod1 \<noteq> sale_price priced_data"
    by (simp_all add: priceChanged_def lastPrice_def prod1_def priced_data_def)
  have h: "newPriceHistory prod1 priced_data 9000000 =
     [\<lparr> price = 47000, checked_at = 1000 \<rparr>, \<lparr> price = 45499, checked_at = 9000000 \<rparr>]"
    using a(1) by (simp add: newPriceHistory_def) (simp add: prod1_def priced_data_def)
  have ph: "price_history (store_scrape priced_data hs 9000000 prod1) = hs" for hs
    by (simp add: store_scrape_def)
  from reconcile_idempotent[where d = priced_data and p = prod1 and ?t1.0 = 9000000
      and r = prod1 and ?t2.0 = 12600000 and env = good_env and st = "sweep_start db3"
      and t = 9000000]
    priced_data_scrape a h ph
  show ?thesis
    by (simp add: Let_def sweep_start_def)
qed


end
